theory Spec2Isabelle
  imports Main "HOL-Library.Code_Target_Nat"
begin

section \<open>Data model of the meeting recorder bot (main.py)\<close>

text \<open>
  The bot keeps three kinds of module-level state: the per-guild dictionary
  \<open>connections\<close>, the configuration (the dictionary \<open>config\<close>, the three globals
  read from it, and the file \<open>config.json\<close>), and nothing else. Every handler is a
  coroutine that reads and writes this state and calls external collaborators (the
  voice transport, the two OpenAI calls, the message transport, the file system).

  A handler is modelled as a function from the state before to an outcome, the state
  after and the list of external calls it made, in order. What each external call
  answers is not decided by this program, so it is read from a \<open>world\<close>: one world
  describes the answers given during one run of one handler. A raised Python exception
  of class \<open>Exception\<close> is a value \<open>Exception msg\<close>, where \<open>msg\<close> is what
  \<open>str(e)\<close> prints. Signals that are not subclasses of \<open>Exception\<close>
  (\<open>KeyboardInterrupt\<close>, task cancellation) are outside the model. Calls to
  \<open>logger.info\<close> are left out; calls to \<open>logger.error\<close> are kept.
\<close>

type_synonym guild_id = int
type_synonym channel_id = int
type_synonym user_id = int

datatype exn = Exception (exn_str: string)

datatype outcome = Returned | Raised exn

text \<open>A text channel object, as returned by \<open>get_channel\<close> or carried by \<open>ctx.channel\<close>.\<close>

datatype channel = Channel (channel_ident: channel_id)

text \<open>The handle returned by \<open>channel.connect()\<close>.\<close>

datatype voice_client = VoiceClient nat

record member =
  member_id :: int
  bot :: bool

record voice_channel =
  vch_id :: channel_id
  members :: "member list"

text \<open>
  \<open>guild.id\<close>, \<open>guild.me\<close> and \<open>guild.get_channel\<close>, a lookup in the guild's channel
  cache that answers \<open>None\<close> for an identifier it does not know.
\<close>

record guild =
  guild_ident :: guild_id
  me :: member
  guild_get_channel :: "channel_id \<Rightarrow> channel option"

text \<open>
  A registry entry, the dictionary \<open>{"vc": vc, "summary_channel": ch}\<close>. The
  destination is optional because the automatic start stores whatever
  \<open>guild.get_channel\<close> answered.
\<close>

record session =
  vc :: voice_client
  summary_channel :: "channel option"

text \<open>
  Values of the configuration document. Only the two shapes the program writes are
  modelled: an integer and a list of integers.
\<close>

datatype cfg_value = CInt int | CList "int list"

type_synonym config_doc = "string \<Rightarrow> cfg_value option"

text \<open>
  The file \<open>config.json\<close>: absent, holding a document, or left truncated by a
  \<open>json.dump\<close> that failed after \<open>open(..., "w")\<close> had emptied it.
\<close>

datatype file_state = Missing | Document config_doc | Truncated

datatype write_outcome = Written | OpenFailed exn | DumpFailed exn

text \<open>
  The messages the commands send, one constructor per literal of the source:
  \<^item> \<open>Msg_not_in_voice\<close>: "You aren't in a voice channel!"
  \<^item> \<open>Msg_connect_failed\<close>: "Failed to connect to the voice channel."
  \<^item> \<open>Msg_listening\<close>: "Listening to this conversation."
  \<^item> \<open>Msg_stopped\<close>: "Stopped recording."
  \<^item> \<open>Msg_not_recording\<close>: "Not recording here."
  \<^item> \<open>Msg_invalid_ids\<close>: "Invalid channel ID provided in one or more inputs!"
  \<^item> \<open>Msg_invalid_id\<close>: "Invalid channel ID provided!"
  \<^item> \<open>Msg_auto_channels ids\<close>: "Auto record channels updated to: " and the ids
  \<^item> \<open>Msg_summary_set n\<close>: "Summary channel set to: n"
  \<^item> \<open>Msg_transcript_set n\<close>: "Transcript channel set to: n"
  \<^item> \<open>Msg_text t\<close>: a message assembled by the completion pipeline.
\<close>

datatype message =
    Msg_not_in_voice
  | Msg_connect_failed
  | Msg_listening
  | Msg_stopped
  | Msg_not_recording
  | Msg_invalid_ids
  | Msg_invalid_id
  | Msg_auto_channels "int list"
  | Msg_summary_set int
  | Msg_transcript_set int
  | Msg_text string

text \<open>
  The external calls a handler makes, and \<open>logger.error\<close>. An effect records that
  the call was made; whether it succeeded is what the world answered.
\<close>

datatype effect =
    LogError string
  | Send channel message
  | Connect channel_id
  | StartRecording voice_client "channel option"
  | StopRecording voice_client
  | Disconnect voice_client
  | Transcribe user_id
  | Summarize string
  | WriteFile config_doc

text \<open>
  The answers of the collaborators during one run of one handler:
  \<^item> \<open>channel_connect\<close>: \<open>await channel.connect()\<close>, a voice client or an exception;
  \<^item> \<open>vc_start_recording\<close>, \<open>vc_stop_recording\<close>, \<open>vc_disconnect\<close>: the three
    calls on a voice client, \<open>None\<close> when the call returns;
  \<^item> \<open>channel_send\<close>: \<open>await channel.send(msg)\<close> and \<open>await ctx.send(msg)\<close>;
  \<^item> \<open>bot_get_channel\<close>: \<open>bot.get_channel(id)\<close>, a lookup in the client's cache;
  \<^item> \<open>openai_transcribe\<close>: the inner \<open>try\<close> of the transcription loop for one
    speaker, the response's text (absent without a \<open>text\<close> key) or an exception;
  \<^item> \<open>openai_acreate\<close>: the summarization call on the transcript and the read of
    \<open>choices[0].message.content\<close>, which may be \<open>None\<close>;
  \<^item> \<open>pendulum_now\<close>: the formatted time of the run;
  \<^item> \<open>py_int\<close>: the builtin \<open>int\<close> on a string, the integer or the exception;
  \<^item> \<open>fs_write\<close>: how the rewrite of the configuration file ends.
\<close>

record world =
  channel_connect :: "voice_channel \<Rightarrow> exn + voice_client"
  vc_start_recording :: "voice_client \<Rightarrow> exn option"
  vc_stop_recording :: "voice_client \<Rightarrow> exn option"
  vc_disconnect :: "voice_client \<Rightarrow> exn option"
  channel_send :: "channel \<Rightarrow> message \<Rightarrow> exn option"
  bot_get_channel :: "channel_id \<Rightarrow> channel option"
  openai_transcribe :: "user_id \<Rightarrow> string \<Rightarrow> exn + string option"
  openai_acreate :: "string \<Rightarrow> exn + string option"
  pendulum_now :: string
  py_int :: "string \<Rightarrow> exn + int"
  fs_write :: write_outcome

record bot_state =
  connections :: "guild_id \<Rightarrow> session option"
  config :: config_doc
  allowed_voice_channels :: "int list"
  SUMMARY_CHANNEL_ID :: int
  TRANSCRIPT_CHANNEL_ID :: int
  config_file :: file_state

type_synonym result = "outcome \<times> bot_state \<times> effect list"

definition outcome_of :: "result \<Rightarrow> outcome" where
  "outcome_of r = fst r"

definition state_of :: "result \<Rightarrow> bot_state" where
  "state_of r = fst (snd r)"

definition effects_of :: "result \<Rightarrow> effect list" where
  "effects_of r = snd (snd r)"

text \<open>
  Statements in sequence: the second runs in the state the first left, unless the
  first raised.
\<close>

definition and_then :: "result \<Rightarrow> (bot_state \<Rightarrow> result) \<Rightarrow> result" where
  "and_then r k =
     (case r of
        (Raised e, s, fx) \<Rightarrow> (Raised e, s, fx)
      | (Returned, s, fx) \<Rightarrow>
          (case k s of (out, s', fx') \<Rightarrow> (out, s', fx @ fx')))"

text \<open>\<open>await ctx.send(msg)\<close> as the last statement of a command.\<close>

definition ctx_send :: "world \<Rightarrow> channel \<Rightarrow> message \<Rightarrow> bot_state \<Rightarrow> result" where
  "ctx_send w ch msg s =
     (case channel_send w ch msg of
        None \<Rightarrow> (Returned, s, [Send ch msg])
      | Some e \<Rightarrow> (Raised e, s, [Send ch msg]))"

section \<open>Commands on the session registry\<close>

text \<open>
  The command context: \<open>ctx.guild.id\<close>, \<open>ctx.channel\<close> and \<open>ctx.author.voice\<close>
  (\<open>None\<close> when the author is in no voice channel, else the state whose
  \<open>channel\<close> is the voice channel).
\<close>

record ctx =
  ctx_guild :: guild_id
  ctx_channel :: channel
  author_voice :: "voice_channel option"

text \<open>
  \<open>record\<close> (lines 79 to 101). The registry is not consulted. A failed
  \<open>connect\<close> is caught, logged and answered; \<open>start_recording\<close> is outside the
  \<open>try\<close>, so its exception leaves the command after the registry was written.
\<close>

definition record_command :: "world \<Rightarrow> ctx \<Rightarrow> bot_state \<Rightarrow> result" where
  "record_command w c s =
     (case author_voice c of
        None \<Rightarrow> ctx_send w (ctx_channel c) Msg_not_in_voice s
      | Some ch \<Rightarrow>
          (case channel_connect w ch of
             Inl e \<Rightarrow>
               and_then
                 (Returned, s,
                  [Connect (vch_id ch),
                   LogError (''Error connecting to voice channel: '' @ exn_str e)])
                 (ctx_send w (ctx_channel c) Msg_connect_failed)
           | Inr v \<Rightarrow>
               (let s' = s\<lparr>connections := (connections s)
                            (ctx_guild c \<mapsto> \<lparr>vc = v, summary_channel = Some (ctx_channel c)\<rparr>)\<rparr>
                in case vc_start_recording w v of
                     Some e \<Rightarrow>
                       (Raised e, s',
                        [Connect (vch_id ch), StartRecording v (Some (ctx_channel c))])
                   | None \<Rightarrow>
                       and_then
                         (Returned, s',
                          [Connect (vch_id ch), StartRecording v (Some (ctx_channel c))])
                         (ctx_send w (ctx_channel c) Msg_listening))))"

text \<open>\<open>stop_recording\<close> (lines 103 to 114).\<close>

definition stop_recording :: "world \<Rightarrow> ctx \<Rightarrow> bot_state \<Rightarrow> result" where
  "stop_recording w c s =
     (case connections s (ctx_guild c) of
        Some record_info \<Rightarrow>
          (case vc_stop_recording w (vc record_info) of
             Some e \<Rightarrow> (Raised e, s, [StopRecording (vc record_info)])
           | None \<Rightarrow>
               and_then
                 (Returned, s\<lparr>connections := (connections s)(ctx_guild c := None)\<rparr>,
                  [StopRecording (vc record_info)])
                 (ctx_send w (ctx_channel c) Msg_stopped))
      | None \<Rightarrow> ctx_send w (ctx_channel c) Msg_not_recording s)"

section \<open>The presence trigger\<close>

text \<open>
  A voice-state event: \<open>member.guild\<close>, \<open>before.channel\<close> and \<open>after.channel\<close>.
  The member lists are the ones the channel objects hold when the handler runs.
\<close>

record voice_event =
  ev_guild :: guild
  before_channel :: "voice_channel option"
  after_channel :: "voice_channel option"

text \<open>
  The first \<open>if\<close> of the handler (lines 201 to 214): a join into an allowed channel,
  with no entry for the guild and some member that is not a bot.
\<close>

definition auto_record :: "world \<Rightarrow> voice_event \<Rightarrow> bot_state \<Rightarrow> result" where
  "auto_record w ev s =
     (case (before_channel ev, after_channel ev) of
        (None, Some ch) \<Rightarrow>
          (if vch_id ch \<in> set (allowed_voice_channels s) then
             (if connections s (guild_ident (ev_guild ev)) = None
                 \<and> list_ex (\<lambda>m. \<not> bot m) (members ch) then
                (case channel_connect w ch of
                   Inl e \<Rightarrow> (Raised e, s, [Connect (vch_id ch)])
                 | Inr v \<Rightarrow>
                     (let summary = guild_get_channel (ev_guild ev) (SUMMARY_CHANNEL_ID s);
                          s' = s\<lparr>connections := (connections s)
                                 (guild_ident (ev_guild ev) \<mapsto>
                                    \<lparr>vc = v, summary_channel = summary\<rparr>)\<rparr>
                      in case vc_start_recording w v of
                           Some e \<Rightarrow>
                             (Raised e, s', [Connect (vch_id ch), StartRecording v summary])
                         | None \<Rightarrow>
                             (Returned, s', [Connect (vch_id ch), StartRecording v summary])))
              else (Returned, s, []))
           else (Returned, s, []))
      | _ \<Rightarrow> (Returned, s, []))"

text \<open>
  The second \<open>if\<close> (lines 216 to 224). Members compare by identifier, so
  \<open>before.channel.members == [guild.me]\<close> holds when the list has one element with
  the bot's identifier. \<open>del connections[guild.id]\<close> runs only after
  \<open>stop_recording\<close> returned.
\<close>

definition auto_stop :: "world \<Rightarrow> voice_event \<Rightarrow> bot_state \<Rightarrow> result" where
  "auto_stop w ev s =
     (case before_channel ev of
        Some ch \<Rightarrow>
          (if vch_id ch \<in> set (allowed_voice_channels s) then
             (if map member_id (members ch) = [member_id (me (ev_guild ev))] then
                (case connections s (guild_ident (ev_guild ev)) of
                   Some record_info \<Rightarrow>
                     (case vc_stop_recording w (vc record_info) of
                        Some e \<Rightarrow> (Raised e, s, [StopRecording (vc record_info)])
                      | None \<Rightarrow>
                          (Returned,
                           s\<lparr>connections :=
                               (connections s)(guild_ident (ev_guild ev) := None)\<rparr>,
                           [StopRecording (vc record_info)]))
                 | None \<Rightarrow> (Returned, s, []))
              else (Returned, s, []))
           else (Returned, s, []))
      | None \<Rightarrow> (Returned, s, []))"

text \<open>The body of the \<open>try\<close>: the two \<open>if\<close> statements in sequence.\<close>

definition voice_state_body :: "world \<Rightarrow> voice_event \<Rightarrow> bot_state \<Rightarrow> result" where
  "voice_state_body w ev s = and_then (auto_record w ev s) (auto_stop w ev)"

text \<open>
  \<open>on_voice_state_update\<close> (lines 196 to 226): the body under
  \<open>except Exception as e\<close>, which logs and returns.
\<close>

definition on_voice_state_update :: "world \<Rightarrow> voice_event \<Rightarrow> bot_state \<Rightarrow> result" where
  "on_voice_state_update w ev s =
     (case voice_state_body w ev s of
        (Raised e, s', fx) \<Rightarrow>
          (Returned, s', fx @ [LogError (''Error in on_voice_state_update: '' @ exn_str e)])
      | (Returned, s', fx) \<Rightarrow> (Returned, s', fx))"

section \<open>Configuration commands\<close>

text \<open>
  \<open>with open(CONFIG_FILE, "w") as f: json.dump(config, f, indent=4)\<close>: the whole
  in-memory document replaces the file. When \<open>open\<close> fails the file is as before;
  when \<open>json.dump\<close> fails the file was already emptied. Either exception leaves the
  command.
\<close>

definition write_config :: "world \<Rightarrow> bot_state \<Rightarrow> result" where
  "write_config w s =
     (case fs_write w of
        Written \<Rightarrow> (Returned, s\<lparr>config_file := Document (config s)\<rparr>, [WriteFile (config s)])
      | OpenFailed e \<Rightarrow> (Raised e, s, [WriteFile (config s)])
      | DumpFailed e \<Rightarrow> (Raised e, s\<lparr>config_file := Truncated\<rparr>, [WriteFile (config s)]))"

text \<open>
  \<open>[int(cid) for cid in channel_ids]\<close>: left to right, the first \<open>int\<close> that
  raises ends the comprehension and no list is produced.
\<close>

fun parse_ids :: "world \<Rightarrow> string list \<Rightarrow> exn + int list" where
  "parse_ids w [] = Inr []"
| "parse_ids w (cid # rest) =
     (case py_int w cid of
        Inl e \<Rightarrow> Inl e
      | Inr n \<Rightarrow> (case parse_ids w rest of Inl e \<Rightarrow> Inl e | Inr ns \<Rightarrow> Inr (n # ns)))"

text \<open>
  \<open>set_auto_record_channels\<close> (lines 116 to 129). The global is assigned only when
  the whole comprehension has been evaluated.
\<close>

definition set_auto_record_channels :: "world \<Rightarrow> ctx \<Rightarrow> string list \<Rightarrow> bot_state \<Rightarrow> result" where
  "set_auto_record_channels w c channel_ids s =
     (case parse_ids w channel_ids of
        Inl e \<Rightarrow>
          and_then
            (Returned, s, [LogError (''Invalid channel ID provided: '' @ exn_str e)])
            (ctx_send w (ctx_channel c) Msg_invalid_ids)
      | Inr ids \<Rightarrow>
          (let s1 = s\<lparr>allowed_voice_channels := ids\<rparr>;
               s2 = s1\<lparr>config := (config s1)(''allowed_voice_channels'' \<mapsto>
                                       CList (allowed_voice_channels s1))\<rparr>
           in and_then (write_config w s2)
                (ctx_send w (ctx_channel c) (Msg_auto_channels (allowed_voice_channels s2)))))"



section \<open>The completion pipeline\<close>

subsection \<open>String helpers of the Python runtime\<close>

text \<open>
  A \<open>string\<close> here is a sequence of code points below 256. \<open>str.strip()\<close> removes
  the characters for which \<open>str.isspace\<close> holds; below 256 these are 9 to 13, 28 to
  32, 133 and 160.
\<close>

definition isspace :: "char \<Rightarrow> bool" where
  "isspace c =
     (let n = (of_char c :: nat)
      in (9 \<le> n \<and> n \<le> 13) \<or> (28 \<le> n \<and> n \<le> 32) \<or> n = 133 \<or> n = 160)"

definition strip :: "string \<Rightarrow> string" where
  "strip t = rev (dropWhile isspace (rev (dropWhile isspace t)))"

fun str_of_nat :: "nat \<Rightarrow> string" where
  "str_of_nat n =
     (if n < 10 then [''0123456789'' ! n]
      else str_of_nat (n div 10) @ [''0123456789'' ! (n mod 10)])"

definition str_of_int :: "int \<Rightarrow> string" where
  "str_of_int i = (if i < 0 then CHR ''-'' # str_of_nat (nat (- i)) else str_of_nat (nat i))"

text \<open>\<open>sep.join(xs)\<close>.\<close>

fun join :: "string \<Rightarrow> string list \<Rightarrow> string" where
  "join sep [] = []"
| "join sep [x] = x"
| "join sep (x # y # ys) = x @ sep @ join sep (y # ys)"

subsection \<open>Transcription, assembly, summary and the two posts\<close>

text \<open>
  The sink handed to the callback: \<open>sink.vc\<close> and \<open>sink.audio_data\<close>, a dictionary
  from user identifier to audio buffer, read in its iteration order.
\<close>

record sink =
  sink_vc :: voice_client
  audio_data :: "(user_id \<times> string) list"

definition transcription_error_text :: string where
  "transcription_error_text = ''[Error transcribing audio]''"

text \<open>
  The loop of lines 238 to 259. The body of the inner \<open>try\<close> (rewind, temporary file,
  the Whisper call, \<open>response.get("text", "")\<close>, removal of the file) is one answer
  of the world: an exception, or the response's text, absent when the response has no
  \<open>text\<close> key. Any exception is logged and replaced by the fixed text.
\<close>

fun transcribe_all ::
  "world \<Rightarrow> (user_id \<times> string) list \<Rightarrow> (user_id \<times> string) list \<Rightarrow> effect list
     \<Rightarrow> (user_id \<times> string) list \<times> effect list" where
  "transcribe_all w [] transcripts fx = (transcripts, fx)"
| "transcribe_all w ((user_id, audio) # rest) transcripts fx =
     (case openai_transcribe w user_id audio of
        Inl e \<Rightarrow>
          transcribe_all w rest
            (transcripts @ [(user_id, transcription_error_text)])
            (fx @ [Transcribe user_id,
                   LogError (''Error transcribing audio for user '' @ str_of_int user_id
                             @ '': '' @ exn_str e)])
      | Inr response \<Rightarrow>
          transcribe_all w rest
            (transcripts @ [(user_id, case response of None \<Rightarrow> [] | Some t \<Rightarrow> t)])
            (fx @ [Transcribe user_id]))"

text \<open>The loop of lines 262 to 264.\<close>

fun assemble :: "(user_id \<times> string) list \<Rightarrow> string \<Rightarrow> string" where
  "assemble [] final_transcript = final_transcript"
| "assemble ((user_id, text) # rest) final_transcript =
     assemble rest
       (final_transcript @ [CHR 0x0A, CHR 0x0A] @ ''Speaker <@'' @ str_of_int user_id
          @ ''>: '' @ text)"

definition recorded_users :: "sink \<Rightarrow> string list" where
  "recorded_users sk = map (\<lambda>(user_id, audio). ''<@'' @ str_of_int user_id @ ''>'') (audio_data sk)"

definition summary_message :: "string \<Rightarrow> string list \<Rightarrow> string \<Rightarrow> string" where
  "summary_message meeting_time users summary =
     ''**Meeting Date & Time:** '' @ meeting_time @ [CHR 0x0A]
       @ ''**Participants:** '' @ join '', '' users @ [CHR 0x0A]
       @ ''**Summary:**'' @ [CHR 0x0A] @ summary @ [CHR 0x0A, CHR 0x0A]"

definition transcript_message :: "string \<Rightarrow> string list \<Rightarrow> string \<Rightarrow> string" where
  "transcript_message meeting_time users final_transcript =
     ''**Meeting Date & Time:** '' @ meeting_time @ [CHR 0x0A]
       @ ''**Participants:** '' @ join '', '' users @ [CHR 0x0A]
       @ ''**Transcript:**'' @ [CHR 0x0A] @ final_transcript"

text \<open>What \<open>None.send\<close> raises.\<close>

definition none_has_no_send :: exn where
  "none_has_no_send =
     Exception ([CHR 0x27] @ ''NoneType'' @ [CHR 0x27] @ '' object has no attribute ''
                @ [CHR 0x27] @ ''send'' @ [CHR 0x27])"

text \<open>The transcripts and the assembled text of a run, as the body below computes them.\<close>

definition transcripts_of :: "world \<Rightarrow> sink \<Rightarrow> (user_id \<times> string) list" where
  "transcripts_of w sk = fst (transcribe_all w (audio_data sk) [] [Disconnect (sink_vc sk)])"

definition final_transcript_of :: "world \<Rightarrow> sink \<Rightarrow> string" where
  "final_transcript_of w sk = strip (assemble (transcripts_of w sk) [])"

text \<open>
  The body of the \<open>try\<close> of \<open>once_done\<close> (lines 233 to 301). The summarization
  answer covers the call and the read of \<open>choices[0].message.content\<close>; a content of
  \<open>None\<close> is formatted as the text \<open>None\<close>. The transcript channel is looked up
  after the summary was sent.
\<close>

definition once_done_body :: "world \<Rightarrow> sink \<Rightarrow> channel option \<Rightarrow> bot_state \<Rightarrow> result" where
  "once_done_body w sk channel s =
     (case vc_disconnect w (sink_vc sk) of
        Some e \<Rightarrow> (Raised e, s, [Disconnect (sink_vc sk)])
      | None \<Rightarrow>
          (case transcribe_all w (audio_data sk) [] [Disconnect (sink_vc sk)] of
             (transcripts, fx1) \<Rightarrow>
               (let final_transcript = strip (assemble transcripts []);
                    fx2 = fx1 @ [Summarize final_transcript]
                in case openai_acreate w final_transcript of
                     Inl e \<Rightarrow> (Raised e, s, fx2)
                   | Inr content \<Rightarrow>
                       (let summary = (case content of None \<Rightarrow> ''None'' | Some t \<Rightarrow> t);
                            meeting_time = pendulum_now w;
                            msg = Msg_text (summary_message meeting_time (recorded_users sk) summary)
                        in case channel of
                             None \<Rightarrow> (Raised none_has_no_send, s, fx2)
                           | Some ch \<Rightarrow>
                               (case channel_send w ch msg of
                                  Some e \<Rightarrow> (Raised e, s, fx2 @ [Send ch msg])
                                | None \<Rightarrow>
                                    (case bot_get_channel w (TRANSCRIPT_CHANNEL_ID s) of
                                       Some transcript_channel \<Rightarrow>
                                         (let tmsg = Msg_text (transcript_message meeting_time
                                                        (recorded_users sk) final_transcript)
                                          in case channel_send w transcript_channel tmsg of
                                               Some e \<Rightarrow>
                                                 (Raised e, s,
                                                  fx2 @ [Send ch msg, Send transcript_channel tmsg])
                                             | None \<Rightarrow>
                                                 (Returned, s,
                                                  fx2 @ [Send ch msg, Send transcript_channel tmsg]))
                                     | None \<Rightarrow>
                                         (Returned, s,
                                          fx2 @ [Send ch msg,
                                                 LogError ''Transcript channel not found!''])))))))"

text \<open>\<open>once_done\<close> (lines 231 to 304): the body under \<open>except Exception as e\<close>.\<close>

definition once_done :: "world \<Rightarrow> sink \<Rightarrow> channel option \<Rightarrow> bot_state \<Rightarrow> result" where
  "once_done w sk channel s =
     (case once_done_body w sk channel s of
        (Raised e, s', fx) \<Rightarrow>
          (Returned, s', fx @ [LogError (''Error in once_done: '' @ exn_str e)])
      | (Returned, s', fx) \<Rightarrow> (Returned, s', fx))"

text \<open>The messages a run posted: the sends the world accepted.\<close>

fun posted :: "world \<Rightarrow> effect list \<Rightarrow> (channel \<times> message) list" where
  "posted w [] = []"
| "posted w (Send ch msg # fx) =
     (if channel_send w ch msg = None then (ch, msg) # posted w fx else posted w fx)"
| "posted w (other # fx) = posted w fx"

section \<open>A concrete world and concrete inputs\<close>

text \<open>
  The builtin \<open>int(text)\<close> in base 10, as CPython 3.11 computes it with its default
  limit of 4300 digits, on text of code points below 256. White space around the
  number is skipped: the code points 9 to 13 and 32, and 133 and 160, which the
  conversion turns into spaces first (28 to 31 are white space for \<open>str.strip\<close> but
  not here). Then comes an optional sign, then the longest run of digits and
  underscores, in which an underscore may stand only between two digits. A run of
  more than 4300 digits raises \<open>ValueError\<close> for its length; an empty or ill-formed
  run, or anything after the run, raises \<open>ValueError\<close> with the \<open>repr\<close> of the text.
\<close>

definition int_space :: "char \<Rightarrow> bool" where
  "int_space c =
     (let n = (of_char c :: nat)
      in (9 \<le> n \<and> n \<le> 13) \<or> n = 32 \<or> n = 133 \<or> n = 160)"

definition is_digit :: "char \<Rightarrow> bool" where
  "is_digit c = (let n = (of_char c :: int) in 48 \<le> n \<and> n \<le> 57)"

fun digits_value :: "string \<Rightarrow> int \<Rightarrow> int option" where
  "digits_value [] acc = Some acc"
| "digits_value (c # cs) acc =
     (if is_digit c then digits_value cs (10 * acc + (of_char c - 48))
      else if c = CHR ''_'' \<and> (case cs of [] \<Rightarrow> False | d # _ \<Rightarrow> is_digit d)
        then digits_value cs acc
      else None)"

text \<open>
  \<open>repr(text)\<close>: double quotes when the text holds an apostrophe and no double quote,
  apostrophes otherwise; the quote and the backslash are escaped, tab, line feed and
  carriage return are written \<open>\t\<close>, \<open>\n\<close>, \<open>\r\<close>, and every other code point that is
  not printable (below 32, 127 to 160, and 173) is written \<open>\xNN\<close>.
\<close>

definition printable :: "char \<Rightarrow> bool" where
  "printable c =
     (let n = (of_char c :: nat) in (32 \<le> n \<and> n < 127) \<or> (161 \<le> n \<and> n \<noteq> 173))"

definition repr_char :: "char \<Rightarrow> char \<Rightarrow> string" where
  "repr_char quote c =
     (let n = (of_char c :: nat)
      in if c = quote \<or> c = CHR 0x5C then [CHR 0x5C, c]
         else if n = 9 then [CHR 0x5C, CHR ''t'']
         else if n = 10 then [CHR 0x5C, CHR ''n'']
         else if n = 13 then [CHR 0x5C, CHR ''r'']
         else if \<not> printable c then
           [CHR 0x5C, CHR ''x'', ''0123456789abcdef'' ! (n div 16),
            ''0123456789abcdef'' ! (n mod 16)]
         else [c])"

definition py_repr :: "string \<Rightarrow> string" where
  "py_repr t =
     (let quote = (if CHR 0x27 \<in> set t \<and> CHR 0x22 \<notin> set t then CHR 0x22 else CHR 0x27)
      in quote # concat (map (repr_char quote) t) @ [quote])"

definition invalid_literal :: "string \<Rightarrow> exn" where
  "invalid_literal t =
     Exception (''invalid literal for int() with base 10: '' @ py_repr t)"

definition exceeds_limit :: "nat \<Rightarrow> exn" where
  "exceeds_limit digits =
     Exception (''Exceeds the limit (4300 digits) for integer string conversion: value has ''
                @ str_of_nat digits
                @ '' digits; use sys.set_int_max_str_digits() to increase the limit'')"

definition numeric :: "char \<Rightarrow> bool" where
  "numeric c = (is_digit c \<or> c = CHR ''_'')"

definition decimal_int :: "string \<Rightarrow> exn + int" where
  "decimal_int t =
     (case (case rev (dropWhile int_space (rev (dropWhile int_space t))) of
              [] \<Rightarrow> (False, [])
            | c # r \<Rightarrow>
                if c = CHR ''-'' then (True, r)
                else if c = CHR ''+'' then (False, r)
                else (False, c # r)) of
        (neg, ds) \<Rightarrow>
          (let run = takeWhile numeric ds;
               rest = dropWhile numeric ds;
               digits = length (filter is_digit run)
           in case (case run of
                      [] \<Rightarrow> Some 0
                    | c # _ \<Rightarrow> if c = CHR ''_'' then None else digits_value run 0) of
                None \<Rightarrow> Inl (invalid_literal t)
              | Some n \<Rightarrow>
                  if 4300 < digits then Inl (exceeds_limit digits)
                  else if run = [] \<or> rest \<noteq> [] then Inl (invalid_literal t)
                  else Inr (if neg then - n else n)))"

text \<open>
  A world in which every external call succeeds, except the transcription for
  user 2; the bot knows the channel 77 only.
\<close>

definition calm_world :: world where
  "calm_world =
     \<lparr>channel_connect = (\<lambda>ch. Inr (VoiceClient 8)),
      vc_start_recording = (\<lambda>v. None),
      vc_stop_recording = (\<lambda>v. None),
      vc_disconnect = (\<lambda>v. None),
      channel_send = (\<lambda>ch msg. None),
      bot_get_channel = (\<lambda>k. if k = 77 then Some (Channel 77) else None),
      openai_transcribe =
        (\<lambda>u audio. if u = 2 then Inl (Exception ''timeout'') else Inr (Some ''hello'')),
      openai_acreate = (\<lambda>t. Inr (Some ''All agreed.'')),
      pendulum_now = ''1st Jan, 2025 | 09:00 AM'',
      py_int = decimal_int,
      fs_write = Written\<rparr>"

definition human :: member where
  "human = \<lparr>member_id = 100, bot = False\<rparr>"

definition the_bot :: member where
  "the_bot = \<lparr>member_id = 1, bot = True\<rparr>"

text \<open>Guild 1, which knows the text channel 55 only.\<close>

definition guild_one :: guild where
  "guild_one =
     \<lparr>guild_ident = 1, me = the_bot,
      guild_get_channel = (\<lambda>k. if k = 55 then Some (Channel 55) else None)\<rparr>"

text \<open>
  The state after a first start: the default configuration with channel 20 allowed
  and summary channel 55, no session.
\<close>

definition idle_state :: bot_state where
  "idle_state =
     \<lparr>connections = (\<lambda>g. None),
      config = [''allowed_voice_channels'' \<mapsto> CList [20],
                ''SUMMARY_CHANNEL_ID'' \<mapsto> CInt 55,
                ''TRANSCRIPT_CHANNEL_ID'' \<mapsto> CInt 77],
      allowed_voice_channels = [20],
      SUMMARY_CHANNEL_ID = 55,
      TRANSCRIPT_CHANNEL_ID = 77,
      config_file = Missing\<rparr>"

text \<open>The same with a session of guild 1 on the voice client 7, destination 55.\<close>

definition recording_state :: bot_state where
  "recording_state =
     idle_state\<lparr>connections :=
       (\<lambda>g. None)(1 \<mapsto> \<lparr>vc = VoiceClient 7, summary_channel = Some (Channel 55)\<rparr>)\<rparr>"

definition join_event :: voice_event where
  "join_event =
     \<lparr>ev_guild = guild_one, before_channel = None,
      after_channel = Some \<lparr>vch_id = 20, members = [human]\<rparr>\<rparr>"

definition leave_event :: voice_event where
  "leave_event =
     \<lparr>ev_guild = guild_one,
      before_channel = Some \<lparr>vch_id = 20, members = [the_bot]\<rparr>,
      after_channel = None\<rparr>"

definition manual_ctx :: ctx where
  "manual_ctx =
     \<lparr>ctx_guild = 1, ctx_channel = Channel 9,
      author_voice = Some \<lparr>vch_id = 20, members = [human]\<rparr>\<rparr>"

definition two_speakers :: sink where
  "two_speakers = \<lparr>sink_vc = VoiceClient 7, audio_data = [(1, ''aaaa''), (2, ''bbbb'')]\<rparr>"

text \<open>
  Variations: the voice connect is refused; the summarization call fails; the stop
  of a recording is refused.
\<close>

definition refusing_world :: world where
  "refusing_world = calm_world\<lparr>channel_connect := (\<lambda>ch. Inl (Exception ''no route''))\<rparr>"

definition mute_world :: world where
  "mute_world = calm_world\<lparr>openai_acreate := (\<lambda>t. Inl (Exception ''rate limit''))\<rparr>"

definition stubborn_world :: world where
  "stubborn_world =
     calm_world\<lparr>vc_stop_recording := (\<lambda>v. Some (Exception ''Not currently recording audio.''))\<rparr>"


definition lost_summary_state :: bot_state where
  "lost_summary_state = idle_state\<lparr>SUMMARY_CHANNEL_ID := 56\<rparr>"

section \<open>Helper lemmas\<close>

lemma voice_state_body_join:
  assumes "before_channel ev = None"
  shows "voice_state_body w ev s = auto_record w ev s"
  using assms
  by (auto simp: voice_state_body_def and_then_def auto_stop_def
      split: prod.splits outcome.splits)

lemma voice_state_body_leave:
  assumes "before_channel ev = Some ch"
  shows "voice_state_body w ev s = auto_stop w ev s"
  using assms
  by (auto simp: voice_state_body_def and_then_def auto_record_def
      split: prod.splits outcome.splits)

lemma transcribe_all_fst:
  "fst (transcribe_all w items transcripts fx) =
     transcripts @ map (\<lambda>(user_id, audio).
        (user_id, case openai_transcribe w user_id audio of
                    Inl e \<Rightarrow> transcription_error_text
                  | Inr response \<Rightarrow> (case response of None \<Rightarrow> [] | Some t \<Rightarrow> t))) items"
  by (induction w items transcripts fx rule: transcribe_all.induct)
     (auto split: sum.splits)

lemma transcribe_all_no_send:
  "Send ch msg \<in> set (snd (transcribe_all w items transcripts fx)) \<Longrightarrow> Send ch msg \<in> set fx"
  by (induction w items transcripts fx rule: transcribe_all.induct)
     (auto split: sum.splits)

lemma posted_append: "posted w (fx @ gx) = posted w fx @ posted w gx"
  by (induction w fx rule: posted.induct) auto

lemma posted_no_send: "(\<And>ch msg. Send ch msg \<notin> set fx) \<Longrightarrow> posted w fx = []"
  by (induction w fx rule: posted.induct) auto

lemma posted_transcribe_all:
  "posted w' (snd (transcribe_all w items transcripts [Disconnect v])) = []"
proof (rule posted_no_send)
  fix ch msg
  show "Send ch msg \<notin> set (snd (transcribe_all w items transcripts [Disconnect v]))"
    using transcribe_all_no_send [of ch msg w items transcripts "[Disconnect v]"] by auto
qed

lemma assemble_concat:
  "assemble transcripts final_transcript =
     final_transcript @ concat (map (\<lambda>(user_id, text).
        [CHR 0x0A, CHR 0x0A] @ ''Speaker <@'' @ str_of_int user_id @ ''>: '' @ text) transcripts)"
  by (induction transcripts final_transcript rule: assemble.induct) auto

lemma two_speakers_run:
  "transcribe_all calm_world (audio_data two_speakers) [] [Disconnect (sink_vc two_speakers)] =
     ([(1, ''hello''), (2, ''[Error transcribing audio]'')],
      [Disconnect (VoiceClient 7), Transcribe 1, Transcribe 2,
       LogError ''Error transcribing audio for user 2: timeout''])"
  by (simp add: two_speakers_def calm_world_def transcription_error_text_def str_of_int_def)

lemma two_speakers_text:
  "strip (assemble [(1, ''hello''), (2, ''[Error transcribing audio]'')] []) =
     ''Speaker <@1>: hello'' @ [CHR 0x0A, CHR 0x0A]
       @ ''Speaker <@2>: [Error transcribing audio]''"
  by (simp add: strip_def isspace_def str_of_int_def)

lemma parse_ids_isl:
  "isl (parse_ids w channel_ids) \<longleftrightarrow> (\<exists>cid \<in> set channel_ids. isl (py_int w cid))"
  by (induction channel_ids) (auto split: sum.splits)

lemma parse_ids_failure:
  "\<exists>cid \<in> set channel_ids. isl (py_int w cid) \<Longrightarrow> \<exists>e. parse_ids w channel_ids = Inl e"
  using parse_ids_isl [of w channel_ids] by (auto simp: isl_def)

lemma parse_ids_success:
  "\<forall>cid \<in> set channel_ids. \<not> isl (py_int w cid) \<Longrightarrow>
     parse_ids w channel_ids = Inr (map (\<lambda>cid. projr (py_int w cid)) channel_ids)"
  by (induction channel_ids) (auto split: sum.splits)

lemma calm_world_int:
  "py_int calm_world ''20'' = Inr 20"
  "py_int calm_world '' 30 '' = Inr 30"
  "py_int calm_world ''56'' = Inr 56"
  "py_int calm_world ''78'' = Inr 78"
  "isl (py_int calm_world ''3x'')"
  by (simp_all add: calm_world_def decimal_int_def int_space_def is_digit_def numeric_def)

section \<open>The session registry\<close>

text \<open>
  Claim C1, as stated: a start attempted for a guild that already has a session fails
  and leaves the original session (voice connection and destination) in the registry.
  The manual \<open>record\<close> command does not look at the registry: in the state where
  guild 1 records on voice client 7 with destination 55, a \<open>record\<close> from channel 9
  whose connect succeeds returns normally, answers that it is listening, and the
  entry of guild 1 is now voice client 8 with destination 9.
\<close>

theorem second_start_counterexample:
  "connections recording_state (ctx_guild manual_ctx)
     = Some \<lparr>vc = VoiceClient 7, summary_channel = Some (Channel 55)\<rparr>
   \<and> outcome_of (record_command calm_world manual_ctx recording_state) = Returned
   \<and> effects_of (record_command calm_world manual_ctx recording_state)
       = [Connect 20, StartRecording (VoiceClient 8) (Some (Channel 9)),
          Send (Channel 9) Msg_listening]
   \<and> connections (state_of (record_command calm_world manual_ctx recording_state))
       (ctx_guild manual_ctx)
     = Some \<lparr>vc = VoiceClient 8, summary_channel = Some (Channel 9)\<rparr>"
  by (simp add: record_command_def and_then_def ctx_send_def calm_world_def manual_ctx_def
        recording_state_def idle_state_def outcome_of_def effects_of_def state_of_def)

text \<open>
  Claim C1, amended. The registry is a dictionary keyed by guild identifier, so it
  holds at most one session for a guild by construction. When a guild already has a
  session, a join event of the presence trigger attempts no connection and leaves the
  whole state as it is, without reporting an error; and a manual \<open>record\<close> whose
  voice connect fails logs the failure, answers that the connection failed, and
  leaves the state as it is. What a manual \<open>record\<close> does when its connect succeeds
  is not part of the amended claim.
\<close>

theorem second_start_keeps_session:
  assumes "connections s g = Some record_info"
  shows "(before_channel ev = None \<and> guild_ident (ev_guild ev) = g \<longrightarrow>
            on_voice_state_update w ev s = (Returned, s, []))
       \<and> (ctx_guild c = g \<and> author_voice c = Some ch \<and> channel_connect w ch = Inl e \<longrightarrow>
            state_of (record_command w c s) = s
            \<and> effects_of (record_command w c s) =
                [Connect (vch_id ch),
                 LogError (''Error connecting to voice channel: '' @ exn_str e),
                 Send (ctx_channel c) Msg_connect_failed])"
  using assms
  by (auto simp: on_voice_state_update_def voice_state_body_join auto_record_def
        record_command_def and_then_def ctx_send_def state_of_def effects_of_def
      split: option.splits)

theorem second_start_keeps_session_witness:
  "connections recording_state 1
     = Some \<lparr>vc = VoiceClient 7, summary_channel = Some (Channel 55)\<rparr>
   \<and> on_voice_state_update calm_world join_event recording_state
       = (Returned, recording_state, [])
   \<and> state_of (record_command refusing_world manual_ctx recording_state) = recording_state
   \<and> effects_of (record_command refusing_world manual_ctx recording_state)
       = [Connect 20, LogError ''Error connecting to voice channel: no route'',
          Send (Channel 9) Msg_connect_failed]"
proof -
  have present: "connections recording_state 1
      = Some \<lparr>vc = VoiceClient 7, summary_channel = Some (Channel 55)\<rparr>"
    by (simp add: recording_state_def)
  have join: "before_channel join_event = None \<and> guild_ident (ev_guild join_event) = 1"
    by (simp add: join_event_def guild_one_def)
  have manual: "ctx_guild manual_ctx = 1
      \<and> author_voice manual_ctx = Some \<lparr>vch_id = 20, members = [human]\<rparr>
      \<and> channel_connect refusing_world \<lparr>vch_id = 20, members = [human]\<rparr>
          = Inl (Exception ''no route'')"
    by (simp add: manual_ctx_def refusing_world_def)
  from second_start_keeps_session
         [OF present, where ev = join_event and w = calm_world]
    second_start_keeps_session
         [OF present, where c = manual_ctx and w = refusing_world
            and ch = "\<lparr>vch_id = 20, members = [human]\<rparr>" and e = "Exception ''no route''"]
    present join manual
  show ?thesis
    by (simp add: manual_ctx_def)
qed

section \<open>The presence trigger: start and stop\<close>

text \<open>
  Claim C4. On a join (no previous channel, a new channel), the handler calls
  \<open>connect\<close> exactly when the joined channel is allowed, the guild has no session
  and some member of the channel is not a bot. When that connect returns a voice
  client, the handler starts recording on it and registers it with the destination
  \<open>guild.get_channel(SUMMARY_CHANNEL_ID)\<close> under exactly the same three conditions.
  A join into a channel whose members are all bots changes nothing and calls nothing.
\<close>

theorem join_starts_session_iff:
  assumes "before_channel ev = None" and "after_channel ev = Some ch"
  shows "(Connect (vch_id ch) \<in> set (effects_of (on_voice_state_update w ev s))
            \<longleftrightarrow> vch_id ch \<in> set (allowed_voice_channels s)
                \<and> connections s (guild_ident (ev_guild ev)) = None
                \<and> (\<exists>m \<in> set (members ch). \<not> bot m))
       \<and> (\<forall>v. channel_connect w ch = Inr v \<longrightarrow>
            ((StartRecording v (guild_get_channel (ev_guild ev) (SUMMARY_CHANNEL_ID s))
                 \<in> set (effects_of (on_voice_state_update w ev s))
              \<and> connections (state_of (on_voice_state_update w ev s)) (guild_ident (ev_guild ev))
                  = Some \<lparr>vc = v, summary_channel =
                            guild_get_channel (ev_guild ev) (SUMMARY_CHANNEL_ID s)\<rparr>)
             \<longleftrightarrow> vch_id ch \<in> set (allowed_voice_channels s)
                 \<and> connections s (guild_ident (ev_guild ev)) = None
                 \<and> (\<exists>m \<in> set (members ch). \<not> bot m)))
       \<and> ((\<forall>m \<in> set (members ch). bot m) \<longrightarrow>
            on_voice_state_update w ev s = (Returned, s, []))"
  using assms
  by (auto simp: on_voice_state_update_def voice_state_body_join auto_record_def
        effects_of_def state_of_def list_ex_iff Let_def
      split: sum.splits option.splits)

theorem join_starts_session_iff_witness:
  "before_channel join_event = None
   \<and> after_channel join_event = Some \<lparr>vch_id = 20, members = [human]\<rparr>
   \<and> Connect 20 \<in> set (effects_of (on_voice_state_update calm_world join_event idle_state))
   \<and> StartRecording (VoiceClient 8) (Some (Channel 55))
       \<in> set (effects_of (on_voice_state_update calm_world join_event idle_state))
   \<and> connections (state_of (on_voice_state_update calm_world join_event idle_state)) 1
       = Some \<lparr>vc = VoiceClient 8, summary_channel = Some (Channel 55)\<rparr>
   \<and> on_voice_state_update calm_world
        (join_event\<lparr>after_channel := Some \<lparr>vch_id = 20, members = [the_bot]\<rparr>\<rparr>) idle_state
       = (Returned, idle_state, [])"
proof -
  have b: "before_channel join_event = None"
    by (simp add: join_event_def)
  have a: "after_channel join_event = Some \<lparr>vch_id = 20, members = [human]\<rparr>"
    by (simp add: join_event_def)
  have conn: "channel_connect calm_world \<lparr>vch_id = 20, members = [human]\<rparr> = Inr (VoiceClient 8)"
    by (simp add: calm_world_def)
  have cond: "vch_id \<lparr>vch_id = 20, members = [human]\<rparr> \<in> set (allowed_voice_channels idle_state)
      \<and> connections idle_state (guild_ident (ev_guild join_event)) = None
      \<and> (\<exists>m \<in> set (members \<lparr>vch_id = 20, members = [human]\<rparr>). \<not> bot m)"
    by (simp add: idle_state_def human_def)
  have dest: "guild_get_channel (ev_guild join_event) (SUMMARY_CHANNEL_ID idle_state)
      = Some (Channel 55) \<and> guild_ident (ev_guild join_event) = 1"
    by (simp add: join_event_def guild_one_def idle_state_def)
  have b2: "before_channel
      (join_event\<lparr>after_channel := Some \<lparr>vch_id = 20, members = [the_bot]\<rparr>\<rparr>) = None"
    by (simp add: join_event_def)
  have a2: "after_channel
      (join_event\<lparr>after_channel := Some \<lparr>vch_id = 20, members = [the_bot]\<rparr>\<rparr>)
        = Some \<lparr>vch_id = 20, members = [the_bot]\<rparr>"
    by simp
  have bots: "\<forall>m \<in> set (members \<lparr>vch_id = 20, members = [the_bot]\<rparr>). bot m"
    by (simp add: the_bot_def)
  from join_starts_session_iff [OF b a, of calm_world idle_state] conn cond dest
  have first: "Connect 20 \<in> set (effects_of (on_voice_state_update calm_world join_event idle_state))
     \<and> StartRecording (VoiceClient 8) (Some (Channel 55))
       \<in> set (effects_of (on_voice_state_update calm_world join_event idle_state))
     \<and> connections (state_of (on_voice_state_update calm_world join_event idle_state)) 1
       = Some \<lparr>vc = VoiceClient 8, summary_channel = Some (Channel 55)\<rparr>"
    by simp
  from join_starts_session_iff [OF b2 a2, of calm_world idle_state] bots
  have second: "on_voice_state_update calm_world
        (join_event\<lparr>after_channel := Some \<lparr>vch_id = 20, members = [the_bot]\<rparr>\<rparr>) idle_state
       = (Returned, idle_state, [])"
    by blast
  from b a first second show ?thesis
    by simp
qed

text \<open>
  Claim C5, as stated: for every guild with a session, a leave event that leaves
  only the bot in an allowed channel stops the session and removes it from the
  registry, so that a second such event performs no stop. The delete follows
  \<open>stop_recording\<close> inside the \<open>try\<close>. In the state where guild 1 records on voice
  client 7, with a voice client that refuses to stop, the leave event calls
  \<open>stop_recording\<close>, the exception is logged and the entry of guild 1 is still in
  the registry; the same event handled again in the resulting state calls
  \<open>stop_recording\<close> a second time.
\<close>

theorem leave_stop_refused_counterexample:
  "connections recording_state 1
     = Some \<lparr>vc = VoiceClient 7, summary_channel = Some (Channel 55)\<rparr>
   \<and> on_voice_state_update stubborn_world leave_event recording_state =
       (Returned, recording_state,
        [StopRecording (VoiceClient 7),
         LogError ''Error in on_voice_state_update: Not currently recording audio.''])
   \<and> connections (state_of (on_voice_state_update stubborn_world leave_event recording_state)) 1
     = Some \<lparr>vc = VoiceClient 7, summary_channel = Some (Channel 55)\<rparr>
   \<and> effects_of
       (on_voice_state_update stubborn_world leave_event
          (state_of (on_voice_state_update stubborn_world leave_event recording_state)))
     = [StopRecording (VoiceClient 7),
        LogError ''Error in on_voice_state_update: Not currently recording audio.'']"
proof -
  have once: "on_voice_state_update stubborn_world leave_event recording_state =
       (Returned, recording_state,
        [StopRecording (VoiceClient 7),
         LogError ''Error in on_voice_state_update: Not currently recording audio.''])"
    by (simp add: on_voice_state_update_def voice_state_body_def and_then_def auto_record_def
          auto_stop_def stubborn_world_def leave_event_def recording_state_def idle_state_def
          guild_one_def the_bot_def)
  have present: "connections recording_state 1
     = Some \<lparr>vc = VoiceClient 7, summary_channel = Some (Channel 55)\<rparr>"
    by (simp add: recording_state_def)
  from once present show ?thesis
    by (simp add: state_of_def effects_of_def)
qed

text \<open>
  Claim C5, amended. In a state where the guild has a session, a leave event whose
  previous channel is allowed and holds exactly the bot, and whose call to
  \<open>stop_recording\<close> returns, stops the recording and deletes the guild's entry; the
  handler makes that one call and no other. Any further leave event of the same
  guild handled in the resulting state makes no call at all and leaves the state as
  it is, whatever the world answers: the entry is gone, so nothing is stopped a
  second time.
\<close>

theorem leave_stops_exactly_once:
  assumes "before_channel ev = Some ch"
      and "vch_id ch \<in> set (allowed_voice_channels s)"
      and "map member_id (members ch) = [member_id (me (ev_guild ev))]"
      and "connections s (guild_ident (ev_guild ev)) = Some record_info"
      and "vc_stop_recording w (vc record_info) = None"
      and "before_channel ev2 = Some ch2"
      and "guild_ident (ev_guild ev2) = guild_ident (ev_guild ev)"
  shows "on_voice_state_update w ev s =
           (Returned,
            s\<lparr>connections := (connections s)(guild_ident (ev_guild ev) := None)\<rparr>,
            [StopRecording (vc record_info)])
       \<and> on_voice_state_update w2 ev2 (state_of (on_voice_state_update w ev s)) =
           (Returned, state_of (on_voice_state_update w ev s), [])"
  using assms
  by (simp add: on_voice_state_update_def voice_state_body_leave auto_stop_def state_of_def)

theorem leave_stops_exactly_once_witness:
  "on_voice_state_update calm_world leave_event recording_state =
     (Returned, idle_state, [StopRecording (VoiceClient 7)])
   \<and> on_voice_state_update calm_world leave_event idle_state = (Returned, idle_state, [])"
proof -
  have st: "recording_state\<lparr>connections := (connections recording_state)(1 := None)\<rparr>
              = idle_state"
    by (simp add: recording_state_def idle_state_def)
  have g: "guild_ident (ev_guild leave_event) = 1"
    by (simp add: leave_event_def guild_one_def)
  have "on_voice_state_update calm_world leave_event recording_state =
           (Returned,
            recording_state\<lparr>connections :=
              (connections recording_state)(guild_ident (ev_guild leave_event) := None)\<rparr>,
            [StopRecording (vc \<lparr>vc = VoiceClient 7, summary_channel = Some (Channel 55)\<rparr>)])
       \<and> on_voice_state_update calm_world leave_event
           (state_of (on_voice_state_update calm_world leave_event recording_state)) =
           (Returned, state_of (on_voice_state_update calm_world leave_event recording_state), [])"
    (is "?first \<and> ?second")
    by (rule leave_stops_exactly_once [where ch = "\<lparr>vch_id = 20, members = [the_bot]\<rparr>"
          and ?ch2.0 = "\<lparr>vch_id = 20, members = [the_bot]\<rparr>"])
       (simp_all add: leave_event_def recording_state_def idle_state_def guild_one_def
          the_bot_def calm_world_def)
  then have both: "?first" "?second"
    by blast+
  from both(1) have one:
    "on_voice_state_update calm_world leave_event recording_state =
       (Returned, idle_state, [StopRecording (VoiceClient 7)])"
    by (simp add: g st)
  from both(2) have two:
    "on_voice_state_update calm_world leave_event idle_state = (Returned, idle_state, [])"
    by (simp add: one state_of_def)
  from one two show ?thesis
    by blast
qed

text \<open>
  Remark. In general, when the call to \<open>stop_recording\<close> raises, the state is
  left as it is, entry included, and the exception is logged.
\<close>

lemma leave_stop_raises_keeps_entry:
  assumes "before_channel ev = Some ch"
      and "vch_id ch \<in> set (allowed_voice_channels s)"
      and "map member_id (members ch) = [member_id (me (ev_guild ev))]"
      and "connections s (guild_ident (ev_guild ev)) = Some record_info"
      and "vc_stop_recording w (vc record_info) = Some e"
  shows "on_voice_state_update w ev s =
           (Returned, s,
            [StopRecording (vc record_info),
             LogError (''Error in on_voice_state_update: '' @ exn_str e)])"
  using assms
  by (simp add: on_voice_state_update_def voice_state_body_leave auto_stop_def)

text \<open>
  Claim C8. For every world, event and state the handler returns: whenever the body
  of its \<open>try\<close> raises, at whichever external call, the handler keeps the state and
  the calls made so far, logs the exception with \<open>logger.error\<close> and returns.
\<close>

theorem voice_state_handler_always_returns:
  "outcome_of (on_voice_state_update w ev s) = Returned
   \<and> (\<forall>e. outcome_of (voice_state_body w ev s) = Raised e \<longrightarrow>
         state_of (on_voice_state_update w ev s) = state_of (voice_state_body w ev s)
         \<and> effects_of (on_voice_state_update w ev s) =
             effects_of (voice_state_body w ev s)
               @ [LogError (''Error in on_voice_state_update: '' @ exn_str e)])"
  by (simp add: on_voice_state_update_def outcome_of_def state_of_def effects_of_def
        split: prod.splits outcome.splits)

theorem voice_state_handler_always_returns_witness:
  "outcome_of (voice_state_body refusing_world join_event idle_state)
     = Raised (Exception ''no route'')
   \<and> on_voice_state_update refusing_world join_event idle_state =
       (Returned, idle_state, [Connect 20, LogError ''Error in on_voice_state_update: no route''])"
proof -
  have raised: "voice_state_body refusing_world join_event idle_state
                  = (Raised (Exception ''no route''), idle_state, [Connect 20])"
    by (simp add: voice_state_body_def and_then_def auto_record_def refusing_world_def
          calm_world_def join_event_def idle_state_def guild_one_def human_def)
  from voice_state_handler_always_returns [of refusing_world join_event idle_state] raised
  show ?thesis
    by (cases "on_voice_state_update refusing_world join_event idle_state")
       (simp add: outcome_of_def state_of_def effects_of_def)
qed

section \<open>The completion pipeline: failures\<close>

text \<open>
  Claim C2. When the summarization call of a run fails, \<open>once_done\<close> returns, no
  message is sent to any channel (neither the summary nor the transcript), and, the
  voice disconnect having returned, the run ends with the summarization call followed
  by the error log of the catch-all.
\<close>

theorem failed_summarization_posts_nothing:
  assumes "openai_acreate w (final_transcript_of w sk) = Inl e"
  shows "outcome_of (once_done w sk channel s) = Returned
       \<and> (\<forall>ch msg. Send ch msg \<notin> set (effects_of (once_done w sk channel s)))
       \<and> posted w (effects_of (once_done w sk channel s)) = []
       \<and> (vc_disconnect w (sink_vc sk) = None \<longrightarrow>
            effects_of (once_done w sk channel s) =
              snd (transcribe_all w (audio_data sk) [] [Disconnect (sink_vc sk)])
                @ [Summarize (final_transcript_of w sk),
                   LogError (''Error in once_done: '' @ exn_str e)])"
proof -
  obtain ts fx1
    where t: "transcribe_all w (audio_data sk) [] [Disconnect (sink_vc sk)] = (ts, fx1)"
    by (cases "transcribe_all w (audio_data sk) [] [Disconnect (sink_vc sk)]")
  have ns: "\<And>ch msg. Send ch msg \<notin> set fx1"
    using transcribe_all_no_send [of _ _ w "audio_data sk" "[]" "[Disconnect (sink_vc sk)]"] t
    by auto
  have ft: "final_transcript_of w sk = strip (assemble ts [])"
    by (simp add: final_transcript_of_def transcripts_of_def t)
  have fx: "effects_of (once_done w sk channel s) =
              (case vc_disconnect w (sink_vc sk) of
                 Some e' \<Rightarrow>
                   [Disconnect (sink_vc sk), LogError (''Error in once_done: '' @ exn_str e')]
               | None \<Rightarrow> fx1 @ [Summarize (final_transcript_of w sk),
                                 LogError (''Error in once_done: '' @ exn_str e)])"
    using assms
    by (simp add: once_done_def once_done_body_def effects_of_def t ft Let_def
          split: option.splits)
  have out: "outcome_of (once_done w sk channel s) = Returned"
    by (simp add: once_done_def outcome_of_def split: prod.splits outcome.splits)
  have nosend: "\<forall>ch msg. Send ch msg \<notin> set (effects_of (once_done w sk channel s))"
    using ns by (auto simp: fx split: option.splits)
  have "posted w (effects_of (once_done w sk channel s)) = []"
    using nosend by (intro posted_no_send) simp
  with out nosend show ?thesis
    by (simp add: fx t)
qed

theorem failed_summarization_posts_nothing_witness:
  "openai_acreate mute_world (final_transcript_of mute_world two_speakers)
     = Inl (Exception ''rate limit'')
   \<and> outcome_of (once_done mute_world two_speakers (Some (Channel 55)) idle_state) = Returned
   \<and> posted mute_world
       (effects_of (once_done mute_world two_speakers (Some (Channel 55)) idle_state)) = []
   \<and> last (effects_of (once_done mute_world two_speakers (Some (Channel 55)) idle_state))
       = LogError ''Error in once_done: rate limit''"
proof -
  have fails: "openai_acreate mute_world (final_transcript_of mute_world two_speakers)
      = Inl (Exception ''rate limit'')"
    by (simp add: mute_world_def)
  have disc: "vc_disconnect mute_world (sink_vc two_speakers) = None"
    by (simp add: mute_world_def calm_world_def)
  note run = failed_summarization_posts_nothing [OF fails, of "Some (Channel 55)" idle_state]
  from run have returned:
    "outcome_of (once_done mute_world two_speakers (Some (Channel 55)) idle_state) = Returned"
    by blast
  from run have silent:
    "posted mute_world
       (effects_of (once_done mute_world two_speakers (Some (Channel 55)) idle_state)) = []"
    by blast
  from run disc have
    "effects_of (once_done mute_world two_speakers (Some (Channel 55)) idle_state) =
       snd (transcribe_all mute_world (audio_data two_speakers) []
              [Disconnect (sink_vc two_speakers)])
         @ [Summarize (final_transcript_of mute_world two_speakers),
            LogError (''Error in once_done: '' @ exn_str (Exception ''rate limit''))]"
    by blast
  then have logged:
    "last (effects_of (once_done mute_world two_speakers (Some (Channel 55)) idle_state))
       = LogError ''Error in once_done: rate limit''"
    by simp
  from fails returned silent logged show ?thesis
    by blast
qed

text \<open>
  Claim C3. The voice disconnect having returned, the run holds one transcript entry
  per captured speaker, in the order of the captured set. The entry of a speaker
  whose transcription raised is the text \<open>[Error transcribing audio]\<close>; the entry
  of every other speaker is the text of that speaker's response (empty when the
  response has no text). The assembled transcript is the concatenation of the labelled
  entries, stripped, and the run goes on to call the summarization with it, however
  many transcriptions failed.
\<close>

theorem speaker_failure_is_contained:
  assumes "vc_disconnect w (sink_vc sk) = None"
  shows "length (transcripts_of w sk) = length (audio_data sk)
       \<and> (\<forall>i < length (audio_data sk).
            transcripts_of w sk ! i =
              (fst (audio_data sk ! i),
               case openai_transcribe w (fst (audio_data sk ! i)) (snd (audio_data sk ! i)) of
                 Inl e \<Rightarrow> ''[Error transcribing audio]''
               | Inr response \<Rightarrow> (case response of None \<Rightarrow> [] | Some t \<Rightarrow> t)))
       \<and> final_transcript_of w sk =
           strip (concat (map (\<lambda>(user_id, text).
              [CHR 0x0A, CHR 0x0A] @ ''Speaker <@'' @ str_of_int user_id @ ''>: '' @ text)
              (transcripts_of w sk)))
       \<and> Summarize (final_transcript_of w sk) \<in> set (effects_of (once_done w sk channel s))"
proof -
  obtain ts fx1
    where t: "transcribe_all w (audio_data sk) [] [Disconnect (sink_vc sk)] = (ts, fx1)"
    by (cases "transcribe_all w (audio_data sk) [] [Disconnect (sink_vc sk)]")
  have ts: "transcripts_of w sk = ts"
    by (simp add: transcripts_of_def t)
  have ft: "final_transcript_of w sk = strip (assemble ts [])"
    by (simp add: final_transcript_of_def ts)
  have shape: "transcripts_of w sk = map (\<lambda>(user_id, audio).
        (user_id, case openai_transcribe w user_id audio of
                    Inl e \<Rightarrow> transcription_error_text
                  | Inr response \<Rightarrow> (case response of None \<Rightarrow> [] | Some t \<Rightarrow> t))) (audio_data sk)"
    using transcribe_all_fst [of w "audio_data sk" "[]" "[Disconnect (sink_vc sk)]"]
    by (simp add: transcripts_of_def)
  have len: "length (transcripts_of w sk) = length (audio_data sk)"
    by (simp add: shape)
  have entries: "\<forall>i < length (audio_data sk).
            transcripts_of w sk ! i =
              (fst (audio_data sk ! i),
               case openai_transcribe w (fst (audio_data sk ! i)) (snd (audio_data sk ! i)) of
                 Inl e \<Rightarrow> ''[Error transcribing audio]''
               | Inr response \<Rightarrow> (case response of None \<Rightarrow> [] | Some t \<Rightarrow> t))"
    by (simp add: shape transcription_error_text_def case_prod_beta split: sum.splits)
  have assembled: "final_transcript_of w sk =
           strip (concat (map (\<lambda>(user_id, text).
              [CHR 0x0A, CHR 0x0A] @ ''Speaker <@'' @ str_of_int user_id @ ''>: '' @ text)
              (transcripts_of w sk)))"
    using assemble_concat [of "transcripts_of w sk" "[]"]
    by (simp add: final_transcript_of_def)
  have "Summarize (final_transcript_of w sk) \<in> set (effects_of (once_done w sk channel s))"
    using assms
    by (auto simp: once_done_def once_done_body_def effects_of_def t ft Let_def
          split: option.splits sum.splits)
  with len entries assembled show ?thesis
    by blast
qed

theorem speaker_failure_is_contained_witness:
  "vc_disconnect calm_world (sink_vc two_speakers) = None
   \<and> openai_transcribe calm_world 2 ''bbbb'' = Inl (Exception ''timeout'')
   \<and> transcripts_of calm_world two_speakers ! 0 = (1, ''hello'')
   \<and> transcripts_of calm_world two_speakers ! 1 = (2, ''[Error transcribing audio]'')
   \<and> Summarize (final_transcript_of calm_world two_speakers)
       \<in> set (effects_of (once_done calm_world two_speakers (Some (Channel 55)) idle_state))"
proof -
  have disc: "vc_disconnect calm_world (sink_vc two_speakers) = None"
    by (simp add: calm_world_def)
  have bad: "openai_transcribe calm_world 2 ''bbbb'' = Inl (Exception ''timeout'')"
    by (simp add: calm_world_def)
  have good: "openai_transcribe calm_world 1 ''aaaa'' = Inr (Some ''hello'')"
    by (simp add: calm_world_def)
  have items: "audio_data two_speakers = [(1, ''aaaa''), (2, ''bbbb'')]"
    by (simp add: two_speakers_def)
  note run = speaker_failure_is_contained [OF disc, of "Some (Channel 55)" idle_state]
  from run have entries: "\<forall>i < length (audio_data two_speakers).
            transcripts_of calm_world two_speakers ! i =
              (fst (audio_data two_speakers ! i),
               case openai_transcribe calm_world (fst (audio_data two_speakers ! i))
                      (snd (audio_data two_speakers ! i)) of
                 Inl e \<Rightarrow> ''[Error transcribing audio]''
               | Inr response \<Rightarrow> (case response of None \<Rightarrow> [] | Some t \<Rightarrow> t))"
    by blast
  from entries [rule_format, of 0] have first: "transcripts_of calm_world two_speakers ! 0 = (1, ''hello'')"
    by (simp add: items good)
  from entries [rule_format, of 1] have second:
    "transcripts_of calm_world two_speakers ! 1 = (2, ''[Error transcribing audio]'')"
    by (simp add: items bad)
  from run have "Summarize (final_transcript_of calm_world two_speakers)
       \<in> set (effects_of (once_done calm_world two_speakers (Some (Channel 55)) idle_state))"
    by blast
  with disc bad first second show ?thesis
    by blast
qed



text \<open>
  Claim C10. A join that meets the three start conditions, whose connect and
  \<open>start_recording\<close> return, registers the session and starts recording even when
  \<open>guild.get_channel(SUMMARY_CHANNEL_ID)\<close> answers nothing: the stored destination
  and the destination handed to the recording are absent, and the handler returns
  without any error log. A later run of the pipeline with that absent destination,
  its disconnect and summarization having returned, raises in its body at the
  summary post; \<open>once_done\<close> catches it, logs it and returns, and nothing is posted.
\<close>

theorem unresolved_summary_channel_starts_anyway:
  assumes "before_channel ev = None" and "after_channel ev = Some ch"
      and "vch_id ch \<in> set (allowed_voice_channels s)"
      and "connections s (guild_ident (ev_guild ev)) = None"
      and "\<exists>m \<in> set (members ch). \<not> bot m"
      and "channel_connect w ch = Inr v"
      and "vc_start_recording w v = None"
      and "guild_get_channel (ev_guild ev) (SUMMARY_CHANNEL_ID s) = None"
      and "vc_disconnect w' (sink_vc sk) = None"
      and "openai_acreate w' (final_transcript_of w' sk) = Inr content"
  shows "on_voice_state_update w ev s =
           (Returned,
            s\<lparr>connections := (connections s)
                 (guild_ident (ev_guild ev) \<mapsto> \<lparr>vc = v, summary_channel = None\<rparr>)\<rparr>,
            [Connect (vch_id ch), StartRecording v None])
       \<and> once_done_body w' sk None s' =
           (Raised none_has_no_send, s',
            snd (transcribe_all w' (audio_data sk) [] [Disconnect (sink_vc sk)])
              @ [Summarize (final_transcript_of w' sk)])
       \<and> once_done w' sk None s' =
           (Returned, s',
            snd (transcribe_all w' (audio_data sk) [] [Disconnect (sink_vc sk)])
              @ [Summarize (final_transcript_of w' sk),
                 LogError (''Error in once_done: '' @ exn_str none_has_no_send)])
       \<and> posted w' (effects_of (once_done w' sk None s')) = []"
proof -
  obtain ts fx1
    where t: "transcribe_all w' (audio_data sk) [] [Disconnect (sink_vc sk)] = (ts, fx1)"
    by (cases "transcribe_all w' (audio_data sk) [] [Disconnect (sink_vc sk)]")
  have ft: "final_transcript_of w' sk = strip (assemble ts [])"
    by (simp add: final_transcript_of_def transcripts_of_def t)
  have quiet: "posted w' fx1 = []"
    using posted_transcribe_all [of w' w' "audio_data sk" "[]" "sink_vc sk"] by (simp add: t)
  have start: "on_voice_state_update w ev s =
           (Returned,
            s\<lparr>connections := (connections s)
                 (guild_ident (ev_guild ev) \<mapsto> \<lparr>vc = v, summary_channel = None\<rparr>)\<rparr>,
            [Connect (vch_id ch), StartRecording v None])"
    using assms(1-8)
    by (auto simp: on_voice_state_update_def voice_state_body_join auto_record_def
          list_ex_iff Let_def)
  have body: "once_done_body w' sk None s' =
           (Raised none_has_no_send, s', fx1 @ [Summarize (final_transcript_of w' sk)])"
    using assms(9,10)
    by (simp add: once_done_body_def t ft Let_def)
  then have run: "once_done w' sk None s' =
           (Returned, s',
            fx1 @ [Summarize (final_transcript_of w' sk),
                   LogError (''Error in once_done: '' @ exn_str none_has_no_send)])"
    by (simp add: once_done_def)
  have "posted w' (effects_of (once_done w' sk None s')) = []"
    by (simp add: run effects_of_def posted_append quiet)
  with start body run show ?thesis
    by (simp add: t)
qed

theorem unresolved_summary_channel_starts_anyway_witness:
  "guild_get_channel (ev_guild join_event) (SUMMARY_CHANNEL_ID lost_summary_state) = None
   \<and> on_voice_state_update calm_world join_event lost_summary_state =
       (Returned,
        lost_summary_state\<lparr>connections := (connections lost_summary_state)
          (1 \<mapsto> \<lparr>vc = VoiceClient 8, summary_channel = None\<rparr>)\<rparr>,
        [Connect 20, StartRecording (VoiceClient 8) None])
   \<and> outcome_of (once_done calm_world two_speakers None lost_summary_state) = Returned
   \<and> last (effects_of (once_done calm_world two_speakers None lost_summary_state))
       = LogError (''Error in once_done: '' @ exn_str none_has_no_send)
   \<and> posted calm_world (effects_of (once_done calm_world two_speakers None lost_summary_state))
       = []"
proof -
  have b: "before_channel join_event = None"
    by (simp add: join_event_def)
  have a: "after_channel join_event = Some \<lparr>vch_id = 20, members = [human]\<rparr>"
    by (simp add: join_event_def)
  have allowed: "vch_id \<lparr>vch_id = 20, members = [human]\<rparr>
      \<in> set (allowed_voice_channels lost_summary_state)"
    by (simp add: lost_summary_state_def idle_state_def)
  have g: "guild_ident (ev_guild join_event) = 1"
    by (simp add: join_event_def guild_one_def)
  have free: "connections lost_summary_state (guild_ident (ev_guild join_event)) = None"
    by (simp add: lost_summary_state_def idle_state_def)
  have someone: "\<exists>m \<in> set (members \<lparr>vch_id = 20, members = [human]\<rparr>). \<not> bot m"
    by (simp add: human_def)
  have conn: "channel_connect calm_world \<lparr>vch_id = 20, members = [human]\<rparr> = Inr (VoiceClient 8)"
    by (simp add: calm_world_def)
  have started: "vc_start_recording calm_world (VoiceClient 8) = None"
    by (simp add: calm_world_def)
  have lost: "guild_get_channel (ev_guild join_event) (SUMMARY_CHANNEL_ID lost_summary_state)
      = None"
    by (simp add: join_event_def guild_one_def lost_summary_state_def)
  have disc: "vc_disconnect calm_world (sink_vc two_speakers) = None"
    by (simp add: calm_world_def)
  have summ: "openai_acreate calm_world (final_transcript_of calm_world two_speakers)
      = Inr (Some ''All agreed.'')"
    by (simp add: calm_world_def)
  note run = unresolved_summary_channel_starts_anyway
    [OF b a allowed free someone conn started lost disc summ, of lost_summary_state]
  from run have start:
    "on_voice_state_update calm_world join_event lost_summary_state =
       (Returned,
        lost_summary_state\<lparr>connections := (connections lost_summary_state)
          (1 \<mapsto> \<lparr>vc = VoiceClient 8, summary_channel = None\<rparr>)\<rparr>,
        [Connect 20, StartRecording (VoiceClient 8) None])"
    by (simp add: g)
  from run have returned:
    "outcome_of (once_done calm_world two_speakers None lost_summary_state) = Returned"
    by (simp add: outcome_of_def)
  from run have logged:
    "last (effects_of (once_done calm_world two_speakers None lost_summary_state))
       = LogError (''Error in once_done: '' @ exn_str none_has_no_send)"
    by (simp add: effects_of_def)
  from run have silent:
    "posted calm_world (effects_of (once_done calm_world two_speakers None lost_summary_state))
       = []"
    by blast
  from lost start returned logged silent show ?thesis
    by blast
qed

section \<open>Configuration commands: validation and write-through\<close>

text \<open>
  Claim C7. When some token of \<open>set_auto_record_channels\<close> is refused by \<open>int\<close>,
  the command changes nothing (the list in memory, the configuration document and
  the file are as before), logs the error and answers with the invalid-channel
  message. When \<open>int\<close> accepts every token, the list in memory and the entry of
  the configuration document become the parsed identifiers, in the order given, and,
  the file write succeeding, the file holds the updated document before the answer
  is sent.
\<close>

theorem invalid_token_rejects_whole_list:
  "((\<exists>cid \<in> set channel_ids. isl (py_int w cid)) \<longrightarrow>
      state_of (set_auto_record_channels w c channel_ids s) = s
      \<and> (\<exists>e. effects_of (set_auto_record_channels w c channel_ids s) =
               [LogError (''Invalid channel ID provided: '' @ exn_str e),
                Send (ctx_channel c) Msg_invalid_ids]))
   \<and> ((\<forall>cid \<in> set channel_ids. \<not> isl (py_int w cid)) \<longrightarrow>
        allowed_voice_channels (state_of (set_auto_record_channels w c channel_ids s))
          = map (\<lambda>cid. projr (py_int w cid)) channel_ids
        \<and> config (state_of (set_auto_record_channels w c channel_ids s))
          = (config s)(''allowed_voice_channels'' \<mapsto>
                         CList (map (\<lambda>cid. projr (py_int w cid)) channel_ids))
        \<and> (fs_write w = Written \<longrightarrow>
             config_file (state_of (set_auto_record_channels w c channel_ids s))
               = Document (config (state_of (set_auto_record_channels w c channel_ids s)))
             \<and> effects_of (set_auto_record_channels w c channel_ids s)
               = [WriteFile (config (state_of (set_auto_record_channels w c channel_ids s))),
                  Send (ctx_channel c)
                    (Msg_auto_channels (map (\<lambda>cid. projr (py_int w cid)) channel_ids))]))"
proof (intro conjI impI)
  assume "\<exists>cid \<in> set channel_ids. isl (py_int w cid)"
  then obtain e where e: "parse_ids w channel_ids = Inl e"
    using parse_ids_failure by blast
  show "state_of (set_auto_record_channels w c channel_ids s) = s"
    by (simp add: set_auto_record_channels_def e and_then_def ctx_send_def state_of_def
          split: option.splits)
  show "\<exists>e. effects_of (set_auto_record_channels w c channel_ids s) =
               [LogError (''Invalid channel ID provided: '' @ exn_str e),
                Send (ctx_channel c) Msg_invalid_ids]"
    by (rule exI [of _ e])
       (simp add: set_auto_record_channels_def e and_then_def ctx_send_def effects_of_def
          split: option.splits)
next
  assume ok: "\<forall>cid \<in> set channel_ids. \<not> isl (py_int w cid)"
  note p = parse_ids_success [OF ok]
  show "allowed_voice_channels (state_of (set_auto_record_channels w c channel_ids s))
          = map (\<lambda>cid. projr (py_int w cid)) channel_ids"
    by (simp add: set_auto_record_channels_def p and_then_def ctx_send_def write_config_def
          state_of_def Let_def split: option.splits write_outcome.splits)
  show "config (state_of (set_auto_record_channels w c channel_ids s))
          = (config s)(''allowed_voice_channels'' \<mapsto>
                         CList (map (\<lambda>cid. projr (py_int w cid)) channel_ids))"
    by (simp add: set_auto_record_channels_def p and_then_def ctx_send_def write_config_def
          state_of_def Let_def split: option.splits write_outcome.splits)
next
  assume ok: "\<forall>cid \<in> set channel_ids. \<not> isl (py_int w cid)" and wr: "fs_write w = Written"
  note p = parse_ids_success [OF ok]
  show "config_file (state_of (set_auto_record_channels w c channel_ids s))
               = Document (config (state_of (set_auto_record_channels w c channel_ids s)))"
    by (simp add: set_auto_record_channels_def p wr and_then_def ctx_send_def write_config_def
          state_of_def Let_def split: option.splits)
  show "effects_of (set_auto_record_channels w c channel_ids s)
               = [WriteFile (config (state_of (set_auto_record_channels w c channel_ids s))),
                  Send (ctx_channel c)
                    (Msg_auto_channels (map (\<lambda>cid. projr (py_int w cid)) channel_ids))]"
    by (simp add: set_auto_record_channels_def p wr and_then_def ctx_send_def write_config_def
          state_of_def effects_of_def Let_def split: option.splits)
qed

theorem invalid_token_rejects_whole_list_witness:
  "isl (py_int calm_world ''3x'')
   \<and> state_of (set_auto_record_channels calm_world manual_ctx [''20'', ''3x''] idle_state)
       = idle_state
   \<and> allowed_voice_channels
       (state_of (set_auto_record_channels calm_world manual_ctx [''20'', '' 30 ''] idle_state))
       = [20, 30]
   \<and> config_file
       (state_of (set_auto_record_channels calm_world manual_ctx [''20'', '' 30 ''] idle_state))
       = Document (config
           (state_of (set_auto_record_channels calm_world manual_ctx [''20'', '' 30 '']
              idle_state)))"
proof -
  have bad: "\<exists>cid \<in> set [''20'', ''3x'']. isl (py_int calm_world cid)"
    by (simp add: calm_world_int)
  have good: "\<forall>cid \<in> set [''20'', '' 30 '']. \<not> isl (py_int calm_world cid)"
    by (simp add: calm_world_int)
  have wr: "fs_write calm_world = Written"
    by (simp add: calm_world_def)
  from invalid_token_rejects_whole_list
         [of "[''20'', ''3x'']" calm_world manual_ctx idle_state] bad
  have rejected:
    "state_of (set_auto_record_channels calm_world manual_ctx [''20'', ''3x''] idle_state)
       = idle_state"
    by blast
  note accepted = invalid_token_rejects_whole_list
         [of "[''20'', '' 30 '']" calm_world manual_ctx idle_state]
  from accepted good have
    "allowed_voice_channels
       (state_of (set_auto_record_channels calm_world manual_ctx [''20'', '' 30 ''] idle_state))
       = map (\<lambda>cid. projr (py_int calm_world cid)) [''20'', '' 30 '']"
    by blast
  then have replaced:
    "allowed_voice_channels
       (state_of (set_auto_record_channels calm_world manual_ctx [''20'', '' 30 ''] idle_state))
       = [20, 30]"
    by (simp add: calm_world_int)
  from accepted good wr have persisted:
    "config_file
       (state_of (set_auto_record_channels calm_world manual_ctx [''20'', '' 30 ''] idle_state))
       = Document (config
           (state_of (set_auto_record_channels calm_world manual_ctx [''20'', '' 30 '']
              idle_state)))"
    by blast
  from calm_world_int(5) rejected replaced persisted show ?thesis
    by blast
qed



end
